theory Spec2Isabelle
  imports Main "HOL-Library.Word"
begin

section \<open>Python runtime values used by the error classes\<close>

text \<open>
  A Python \<open>str\<close> is modelled as a \<open>string\<close>: a list of characters whose \<open>length\<close>
  is what Python's \<open>len\<close> counts, and whose \<open>take n\<close> is the slice \<open>[:n]\<close>.
  Python's \<open>int\<close> is unbounded, hence \<open>int\<close>.
\<close>

definition digit_char :: "nat \<Rightarrow> char" where
  "digit_char d = ''0123456789'' ! d"

text \<open>\<open>str(n)\<close> for a non-negative integer: its decimal digits, no leading zero.\<close>

function str_nat :: "nat \<Rightarrow> string" where
  "str_nat n = (if n < 10 then [digit_char n] else str_nat (n div 10) @ [digit_char (n mod 10)])"
  by pat_completeness auto
termination
  by (relation "measure (\<lambda>n. n)") auto

declare str_nat.simps [simp del]

text \<open>\<open>str(i)\<close> and \<open>f"{i}"\<close> for a Python \<open>int\<close>.\<close>

definition str_int :: "int \<Rightarrow> string" where
  "str_int i = (if i < 0 then ''-'' @ str_nat (nat (- i)) else str_nat (nat i))"

text \<open>\<open>f"{b}"\<close> for a Python \<open>bool\<close>.\<close>

definition str_bool :: "bool \<Rightarrow> string" where
  "str_bool b = (if b then ''True'' else ''False'')"

section \<open>hikari.errors\<close>

subsection \<open>ShardCloseCode\<close>

datatype ShardCloseCode =
    NORMAL_CLOSURE
  | GOING_AWAY
  | PROTOCOL_ERROR
  | TYPE_ERROR
  | ENCODING_ERROR
  | POLICY_VIOLATION
  | TOO_BIG
  | UNEXPECTED_CONDITION
  | UNKNOWN_ERROR
  | UNKNOWN_OPCODE
  | DECODE_ERROR
  | NOT_AUTHENTICATED
  | AUTHENTICATION_FAILED
  | ALREADY_AUTHENTICATED
  | INVALID_SEQ
  | RATE_LIMITED
  | SESSION_TIMEOUT
  | INVALID_SHARD
  | SHARDING_REQUIRED
  | INVALID_VERSION
  | INVALID_INTENT
  | DISALLOWED_INTENT

text \<open>The integer each member is bound to in the class body (\<open>member.value\<close>).\<close>

fun ShardCloseCode_value :: "ShardCloseCode \<Rightarrow> int" where
  "ShardCloseCode_value NORMAL_CLOSURE = 1000"
| "ShardCloseCode_value GOING_AWAY = 1001"
| "ShardCloseCode_value PROTOCOL_ERROR = 1002"
| "ShardCloseCode_value TYPE_ERROR = 1003"
| "ShardCloseCode_value ENCODING_ERROR = 1007"
| "ShardCloseCode_value POLICY_VIOLATION = 1008"
| "ShardCloseCode_value TOO_BIG = 1009"
| "ShardCloseCode_value UNEXPECTED_CONDITION = 1011"
| "ShardCloseCode_value UNKNOWN_ERROR = 4000"
| "ShardCloseCode_value UNKNOWN_OPCODE = 4001"
| "ShardCloseCode_value DECODE_ERROR = 4002"
| "ShardCloseCode_value NOT_AUTHENTICATED = 4003"
| "ShardCloseCode_value AUTHENTICATION_FAILED = 4004"
| "ShardCloseCode_value ALREADY_AUTHENTICATED = 4005"
| "ShardCloseCode_value INVALID_SEQ = 4007"
| "ShardCloseCode_value RATE_LIMITED = 4008"
| "ShardCloseCode_value SESSION_TIMEOUT = 4009"
| "ShardCloseCode_value INVALID_SHARD = 4010"
| "ShardCloseCode_value SHARDING_REQUIRED = 4011"
| "ShardCloseCode_value INVALID_VERSION = 4012"
| "ShardCloseCode_value INVALID_INTENT = 4013"
| "ShardCloseCode_value DISALLOWED_INTENT = 4014"

text \<open>
  The property \<open>is_standard\<close>: \<open>(self.value // 1000) == 1\<close>. Python's \<open>//\<close> on
  integers is floor division, which is \<open>div\<close> on \<open>int\<close>.
\<close>

definition is_standard :: "ShardCloseCode \<Rightarrow> bool" where
  "is_standard self = (ShardCloseCode_value self div 1000 = 1)"

text \<open>The members from \<open>UNKNOWN_ERROR\<close> through \<open>DISALLOWED_INTENT\<close>, in class-body order.\<close>

definition gateway_close_codes :: "ShardCloseCode list" where
  "gateway_close_codes =
     [UNKNOWN_ERROR, UNKNOWN_OPCODE, DECODE_ERROR, NOT_AUTHENTICATED, AUTHENTICATION_FAILED,
      ALREADY_AUTHENTICATED, INVALID_SEQ, RATE_LIMITED, SESSION_TIMEOUT, INVALID_SHARD,
      SHARDING_REQUIRED, INVALID_VERSION, INVALID_INTENT, DISALLOWED_INTENT]"

subsection \<open>Class hierarchy\<close>

text \<open>
  The classes of \<open>hikari.errors\<close> that the verified properties mention, and the builtin
  exception classes they derive from.
\<close>

datatype py_class =
    Cls_BaseException
  | Cls_Exception
  | Cls_KeyboardInterrupt
  | Cls_RuntimeError
  | Cls_ValueError
  | Cls_TypeError
  | Cls_AssertionError
  | Cls_HikariError
  | Cls_HikariInterrupt
  | Cls_GatewayError
  | Cls_GatewayServerClosedConnectionError
  | Cls_HTTPError
  | Cls_HTTPResponseError
  | Cls_ClientHTTPResponseError
  | Cls_BadRequestError
  | Cls_UnauthorizedError
  | Cls_ForbiddenError
  | Cls_NotFoundError
  | Cls_RateLimitTooLongError
  | Cls_InternalServerError
  | Cls_MissingIntentError

text \<open>The base classes named in each \<open>class\<close> statement, in order.\<close>

fun bases :: "py_class \<Rightarrow> py_class list" where
  "bases Cls_BaseException = []"
| "bases Cls_Exception = [Cls_BaseException]"
| "bases Cls_KeyboardInterrupt = [Cls_BaseException]"
| "bases Cls_RuntimeError = [Cls_Exception]"
| "bases Cls_ValueError = [Cls_Exception]"
| "bases Cls_TypeError = [Cls_Exception]"
| "bases Cls_AssertionError = [Cls_Exception]"
| "bases Cls_HikariError = [Cls_RuntimeError]"
| "bases Cls_HikariInterrupt = [Cls_KeyboardInterrupt, Cls_HikariError]"
| "bases Cls_GatewayError = [Cls_HikariError]"
| "bases Cls_GatewayServerClosedConnectionError = [Cls_GatewayError]"
| "bases Cls_HTTPError = [Cls_HikariError]"
| "bases Cls_HTTPResponseError = [Cls_HTTPError]"
| "bases Cls_ClientHTTPResponseError = [Cls_HTTPResponseError]"
| "bases Cls_BadRequestError = [Cls_ClientHTTPResponseError]"
| "bases Cls_UnauthorizedError = [Cls_ClientHTTPResponseError]"
| "bases Cls_ForbiddenError = [Cls_ClientHTTPResponseError]"
| "bases Cls_NotFoundError = [Cls_ClientHTTPResponseError]"
| "bases Cls_RateLimitTooLongError = [Cls_HTTPError]"
| "bases Cls_InternalServerError = [Cls_HTTPResponseError]"
| "bases Cls_MissingIntentError = [Cls_HikariError, Cls_ValueError]"

text \<open>Distance to the root of the hierarchy; it decreases along \<open>bases\<close>.\<close>

fun class_rank :: "py_class \<Rightarrow> nat" where
  "class_rank Cls_BaseException = 0"
| "class_rank Cls_Exception = 1"
| "class_rank Cls_KeyboardInterrupt = 1"
| "class_rank Cls_RuntimeError = 2"
| "class_rank Cls_ValueError = 2"
| "class_rank Cls_TypeError = 2"
| "class_rank Cls_AssertionError = 2"
| "class_rank Cls_HikariError = 3"
| "class_rank Cls_HikariInterrupt = 4"
| "class_rank Cls_GatewayError = 4"
| "class_rank Cls_GatewayServerClosedConnectionError = 5"
| "class_rank Cls_HTTPError = 4"
| "class_rank Cls_HTTPResponseError = 5"
| "class_rank Cls_ClientHTTPResponseError = 6"
| "class_rank Cls_BadRequestError = 7"
| "class_rank Cls_UnauthorizedError = 7"
| "class_rank Cls_ForbiddenError = 7"
| "class_rank Cls_NotFoundError = 7"
| "class_rank Cls_RateLimitTooLongError = 5"
| "class_rank Cls_InternalServerError = 6"
| "class_rank Cls_MissingIntentError = 4"

text \<open>\<open>issubclass(c, d)\<close>: \<open>d\<close> is \<open>c\<close> or is reached from \<open>c\<close> through base classes.\<close>

function issubclass :: "py_class \<Rightarrow> py_class \<Rightarrow> bool" where
  "issubclass c d = (c = d \<or> list_ex (\<lambda>b. issubclass b d) (bases c))"
  by pat_completeness auto
termination
proof (relation "measure (\<lambda>(c, d). class_rank c)")
  show "wf (measure (\<lambda>(c, d). class_rank c))" by simp
next
  fix c d b :: py_class
  assume "b \<in> set (bases c)"
  then have "class_rank b < class_rank c" by (cases c) auto
  then show "((b, d), (c, d)) \<in> measure (\<lambda>(c, d). class_rank c)" by simp
qed

declare issubclass.simps [simp del]

text \<open>
  Every object carries the class it was created from (\<open>type(self)\<close>); \<open>HikariError\<close>
  itself adds no attribute. Creating an instance allocates the object of the class and
  then runs the class's \<open>__init__\<close> on it.
\<close>

record HikariError =
  cls :: py_class

definition new :: "py_class \<Rightarrow> HikariError" where
  "new c = \<lparr>cls = c\<rparr>"

definition isinstance :: "'a HikariError_scheme \<Rightarrow> py_class \<Rightarrow> bool" where
  "isinstance obj c = issubclass (cls obj) c"

subsection \<open>HikariInterrupt\<close>

record HikariInterrupt = HikariError +
  signum :: int
  signame :: string

text \<open>
  A call \<open>HikariInterrupt(...)\<close> as the call site writes it: the positional arguments and
  the two keyword arguments, each present or absent.
\<close>

datatype py_value = PyInt int | PyStr string

record HikariInterrupt_call =
  positional :: "py_value list"
  kw_signum :: "int option"
  kw_signame :: "string option"

datatype exception =
    TypeError
  | AssertionError
  | AttributeError
  | ValueError
  | Interrupt HikariInterrupt
  | Raised string bool

text \<open>
  \<open>def __init__(self, *, signum: int, signame: str)\<close>: both parameters are keyword-only,
  so binding the arguments raises \<open>TypeError\<close> when a positional argument is given or a
  keyword is missing; otherwise the two attributes are stored.
\<close>

definition HikariInterrupt_init :: "HikariError \<Rightarrow> HikariInterrupt_call \<Rightarrow> exception + HikariInterrupt" where
  "HikariInterrupt_init self args =
     (if positional args \<noteq> [] then Inl TypeError
      else case (kw_signum args, kw_signame args) of
             (Some n, Some s) \<Rightarrow> Inr (HikariError.extend self (HikariInterrupt.fields n s))
           | _ \<Rightarrow> Inl TypeError)"

definition HikariInterrupt_str :: "HikariInterrupt \<Rightarrow> string" where
  "HikariInterrupt_str self =
     ''Signal '' @ str_int (signum self) @ '' ('' @ signame self @ '') received''"

subsection \<open>GatewayError and GatewayServerClosedConnectionError\<close>

record GatewayError = HikariError +
  reason :: string

definition GatewayError_init :: "HikariError \<Rightarrow> string \<Rightarrow> GatewayError" where
  "GatewayError_init self reason' = HikariError.extend self (GatewayError.fields reason')"

text \<open>The attribute \<open>code\<close> is a \<open>ShardCloseCode\<close> member or a plain \<open>int\<close>.\<close>

datatype close_code = Member ShardCloseCode | Plain int

record GatewayServerClosedConnectionError = GatewayError +
  code :: close_code
  can_reconnect :: bool

definition GatewayServerClosedConnectionError_init ::
  "HikariError \<Rightarrow> string \<Rightarrow> close_code \<Rightarrow> bool \<Rightarrow> GatewayServerClosedConnectionError" where
  "GatewayServerClosedConnectionError_init self reason' code' can_reconnect' =
     GatewayError.extend (GatewayError_init self reason')
       (GatewayServerClosedConnectionError.fields code' can_reconnect')"

definition GatewayServerClosedConnectionError ::
  "string \<Rightarrow> close_code \<Rightarrow> bool \<Rightarrow> GatewayServerClosedConnectionError" where
  "GatewayServerClosedConnectionError =
     GatewayServerClosedConnectionError_init (new Cls_GatewayServerClosedConnectionError)"

text \<open>
  \<open>f"{self.code}"\<close>: a plain \<open>int\<close> is written in decimal; how a \<open>ShardCloseCode\<close>
  member is written is decided by \<open>hikari.internal.enums.Enum\<close>, which is outside the
  modules verified here, so it is the parameter \<open>fmt_member\<close>.
\<close>

definition fmt_code :: "(ShardCloseCode \<Rightarrow> string) \<Rightarrow> close_code \<Rightarrow> string" where
  "fmt_code fmt_member c = (case c of Member m \<Rightarrow> fmt_member m | Plain n \<Rightarrow> str_int n)"

definition GatewayServerClosedConnectionError_str ::
  "(ShardCloseCode \<Rightarrow> string) \<Rightarrow> GatewayServerClosedConnectionError \<Rightarrow> string" where
  "GatewayServerClosedConnectionError_str fmt_member self =
     ''Server closed connection with code '' @ fmt_code fmt_member (code self)
       @ '' ('' @ reason self @ '')''"

text \<open>
  Modelled from the spec: the shard's reaction to a server closure, which lives in the
  gateway shard implementation and is not among the modules verified here. The docstring
  of \<open>can_reconnect\<close> says: if true, the shard tries to reconnect after the error is
  raised rather than propagating it to the caller; if false, the error is raised to
  the caller; section 4.3 of the specification calls the latter closures terminal and
  non-resumable.
\<close>

datatype closure_disposition = Reconnect | Propagate_to_caller

text \<open>
  Modelled from the spec: what the shard does with a server closure, by the docstring
  of \<open>can_reconnect\<close>.
\<close>

definition on_server_closed :: "GatewayServerClosedConnectionError \<Rightarrow> closure_disposition" where
  "on_server_closed err = (if can_reconnect err then Reconnect else Propagate_to_caller)"

subsection \<open>HTTPError and HTTPResponseError\<close>

record HTTPError = HikariError +
  message :: string

definition HTTPError_init :: "HikariError \<Rightarrow> string \<Rightarrow> HTTPError" where
  "HTTPError_init self message' = HikariError.extend self (HTTPError.fields message')"

text \<open>
  A member of the standard library's \<open>http.HTTPStatus\<close> has a name and an integer
  value; the attribute \<open>status\<close> is such a member or a plain \<open>int\<close>.
\<close>

datatype HTTPStatus = HTTPStatus (status_name: string) (status_value: int)

definition BAD_REQUEST :: HTTPStatus where
  "BAD_REQUEST = HTTPStatus ''BAD_REQUEST'' 400"

definition UNAUTHORIZED :: HTTPStatus where
  "UNAUTHORIZED = HTTPStatus ''UNAUTHORIZED'' 401"

definition FORBIDDEN :: HTTPStatus where
  "FORBIDDEN = HTTPStatus ''FORBIDDEN'' 403"

definition NOT_FOUND :: HTTPStatus where
  "NOT_FOUND = HTTPStatus ''NOT_FOUND'' 404"

datatype status = Status HTTPStatus | IntStatus int

text \<open>The integer a status stands for, whichever its form.\<close>

definition status_int :: "status \<Rightarrow> int" where
  "status_int st = (case st of Status h \<Rightarrow> status_value h | IntStatus n \<Rightarrow> n)"

text \<open>
  The response body is typed \<open>Any\<close>: it is a \<open>bytes\<close> object, which has a \<open>decode\<close>
  method, or some other object without one (a \<open>str\<close>, a \<open>dict\<close>, \<open>None\<close>).
\<close>

datatype 'a raw_body = Bytes "8 word list" | Object 'a

record 'a HTTPResponseError = HTTPError +
  url :: string
  status :: status
  headers :: "string \<rightharpoonup> string"
  raw_body :: "'a raw_body"
  code :: int

text \<open>
  The parameters \<open>code\<close> and \<open>message\<close> have the defaults \<open>0\<close> and \<open>""\<close>; an
  omitted argument is \<open>None\<close> here.
\<close>

definition default :: "'v \<Rightarrow> 'v option \<Rightarrow> 'v" where
  "default d arg = (case arg of None \<Rightarrow> d | Some v \<Rightarrow> v)"

definition HTTPResponseError_init ::
  "HikariError \<Rightarrow> string \<Rightarrow> status \<Rightarrow> (string \<rightharpoonup> string) \<Rightarrow> 'a raw_body \<Rightarrow> int option \<Rightarrow> string option
     \<Rightarrow> 'a HTTPResponseError" where
  "HTTPResponseError_init self url' status' headers' raw_body' code' message' =
     (let code'' = default 0 code';
          message'' = default '''' message';
          self0 = HTTPError_init self message'';
          self1 = HTTPError.extend self0
                    (HTTPResponseError.fields url' status' headers' raw_body' code'')
      in self1\<lparr>message := message''\<rparr>)"

text \<open>\<open>s.replace("_", " ")\<close>.\<close>

definition replace_underscores :: "string \<Rightarrow> string" where
  "replace_underscores s = map (\<lambda>c. if c = CHR ''_'' then CHR '' '' else c) s"

text \<open>
  \<open>s.title()\<close> on ASCII text: a letter that follows a letter is lowercased, a letter
  that does not is uppercased, and every other character is kept. (Names of
  \<open>http.HTTPStatus\<close> members are ASCII.)
\<close>

definition ascii_lowercase :: string where
  "ascii_lowercase = ''abcdefghijklmnopqrstuvwxyz''"

definition ascii_uppercase :: string where
  "ascii_uppercase = ''ABCDEFGHIJKLMNOPQRSTUVWXYZ''"

definition is_cased :: "char \<Rightarrow> bool" where
  "is_cased c = (c \<in> set ascii_lowercase \<or> c \<in> set ascii_uppercase)"

definition to_upper :: "char \<Rightarrow> char" where
  "to_upper c = (case map_of (zip ascii_lowercase ascii_uppercase) c of Some u \<Rightarrow> u | None \<Rightarrow> c)"

definition to_lower :: "char \<Rightarrow> char" where
  "to_lower c = (case map_of (zip ascii_uppercase ascii_lowercase) c of Some l \<Rightarrow> l | None \<Rightarrow> c)"

fun title_from :: "bool \<Rightarrow> string \<Rightarrow> string" where
  "title_from previous_is_cased [] = []"
| "title_from previous_is_cased (c # cs) =
     (if is_cased c
      then (if previous_is_cased then to_lower c else to_upper c) # title_from True cs
      else c # title_from False cs)"

definition title :: "string \<Rightarrow> string" where
  "title s = title_from False s"

text \<open>
  The body shown by \<open>__str__\<close> when there is no message: \<open>raw_body.decode("utf-8")\<close>,
  and \<open>str(raw_body)\<close> when that raises \<open>AttributeError\<close> (no \<open>decode\<close> method) or
  \<open>UnicodeDecodeError\<close> (bytes that are not UTF-8). The decoder and \<open>str\<close> belong to
  the Python runtime: \<open>utf8_decode\<close> returns \<open>None\<close> where \<open>bytes.decode\<close> raises.
\<close>

definition render_body ::
  "(8 word list \<Rightarrow> string option) \<Rightarrow> ('a raw_body \<Rightarrow> string) \<Rightarrow> 'a raw_body \<Rightarrow> string" where
  "render_body utf8_decode py_str rb =
     (case rb of
        Bytes bs \<Rightarrow> (case utf8_decode bs of Some s \<Rightarrow> s | None \<Rightarrow> py_str rb)
      | Object x \<Rightarrow> py_str rb)"

definition HTTPResponseError_str ::
  "(8 word list \<Rightarrow> string option) \<Rightarrow> ('a raw_body \<Rightarrow> string) \<Rightarrow> ('a, 'z) HTTPResponseError_scheme \<Rightarrow> string" where
  "HTTPResponseError_str utf8_decode py_str self =
     (let name_value =
            (case status self of
               Status st \<Rightarrow>
                 (let name = title (replace_underscores (status_name st))
                  in name @ '' '' @ str_int (status_value st))
             | IntStatus n \<Rightarrow> ''Unknown Status '' @ str_int n);
          code_str = (if code self \<noteq> 0 then '' ('' @ str_int (code self) @ '')'' else '''');
          body = (if message self \<noteq> '''' then message self
                  else render_body utf8_decode py_str (raw_body self));
          chomped = (length body > 200)
      in name_value @ '':'' @ code_str @ '' '' @ [CHR 0x27] @ take 200 body
           @ (if chomped then ''...'' else '''') @ [CHR 0x27] @ '' for '' @ url self)"

subsection \<open>The client errors\<close>

text \<open>
  \<open>ClientHTTPResponseError\<close> and \<open>InternalServerError\<close> add neither attributes nor
  methods to \<open>HTTPResponseError\<close>; so do \<open>UnauthorizedError\<close>, \<open>ForbiddenError\<close> and
  \<open>NotFoundError\<close>, whose \<open>__init__\<close> fixes the status. \<open>BadRequestError\<close> adds
  \<open>errors\<close> and \<open>_cached_str\<close>.
\<close>

record ('a, 'e) BadRequestError = "'a HTTPResponseError" +
  errors :: "'e option"
  cached_str :: "string option"

definition BadRequestError_init ::
  "HikariError \<Rightarrow> string \<Rightarrow> (string \<rightharpoonup> string) \<Rightarrow> 'a raw_body \<Rightarrow> int option \<Rightarrow> string option
     \<Rightarrow> 'e option \<Rightarrow> ('a, 'e) BadRequestError" where
  "BadRequestError_init self url' headers' raw_body' code' message' errors' =
     HTTPResponseError.extend
       (HTTPResponseError_init self url' (Status BAD_REQUEST) headers' raw_body' code' message')
       (BadRequestError.fields errors' None)"

definition UnauthorizedError_init ::
  "HikariError \<Rightarrow> string \<Rightarrow> (string \<rightharpoonup> string) \<Rightarrow> 'a raw_body \<Rightarrow> int option \<Rightarrow> string option
     \<Rightarrow> 'a HTTPResponseError" where
  "UnauthorizedError_init self url' headers' raw_body' code' message' =
     HTTPResponseError_init self url' (Status UNAUTHORIZED) headers' raw_body' code' message'"

definition ForbiddenError_init ::
  "HikariError \<Rightarrow> string \<Rightarrow> (string \<rightharpoonup> string) \<Rightarrow> 'a raw_body \<Rightarrow> int option \<Rightarrow> string option
     \<Rightarrow> 'a HTTPResponseError" where
  "ForbiddenError_init self url' headers' raw_body' code' message' =
     HTTPResponseError_init self url' (Status FORBIDDEN) headers' raw_body' code' message'"

definition NotFoundError_init ::
  "HikariError \<Rightarrow> string \<Rightarrow> (string \<rightharpoonup> string) \<Rightarrow> 'a raw_body \<Rightarrow> int option \<Rightarrow> string option
     \<Rightarrow> 'a HTTPResponseError" where
  "NotFoundError_init self url' headers' raw_body' code' message' =
     HTTPResponseError_init self url' (Status NOT_FOUND) headers' raw_body' code' message'"

text \<open>The calls \<open>BadRequestError(...)\<close>, \<open>UnauthorizedError(...)\<close>, and so on.\<close>

definition BadRequestError ::
  "string \<Rightarrow> (string \<rightharpoonup> string) \<Rightarrow> 'a raw_body \<Rightarrow> int option \<Rightarrow> string option \<Rightarrow> 'e option
     \<Rightarrow> ('a, 'e) BadRequestError" where
  "BadRequestError = BadRequestError_init (new Cls_BadRequestError)"

definition UnauthorizedError ::
  "string \<Rightarrow> (string \<rightharpoonup> string) \<Rightarrow> 'a raw_body \<Rightarrow> int option \<Rightarrow> string option
     \<Rightarrow> 'a HTTPResponseError" where
  "UnauthorizedError = UnauthorizedError_init (new Cls_UnauthorizedError)"

definition ForbiddenError ::
  "string \<Rightarrow> (string \<rightharpoonup> string) \<Rightarrow> 'a raw_body \<Rightarrow> int option \<Rightarrow> string option
     \<Rightarrow> 'a HTTPResponseError" where
  "ForbiddenError = ForbiddenError_init (new Cls_ForbiddenError)"

definition NotFoundError ::
  "string \<Rightarrow> (string \<rightharpoonup> string) \<Rightarrow> 'a raw_body \<Rightarrow> int option \<Rightarrow> string option
     \<Rightarrow> 'a HTTPResponseError" where
  "NotFoundError = NotFoundError_init (new Cls_NotFoundError)"

subsection \<open>RateLimitTooLongError\<close>

text \<open>
  The attributes typed \<open>float\<close> are stored and formatted, never computed with, so the
  type of floats is the parameter \<open>'f\<close>; \<open>'r\<close> is \<open>routes.CompiledRoute\<close>. The
  formatting of both in an f-string belongs to code outside the modules verified here:
  \<open>fmt_float\<close> and \<open>fmt_route\<close>.
\<close>

record ('r, 'f) RateLimitTooLongError = HTTPError +
  route :: 'r
  is_global :: bool
  retry_after :: 'f
  max_retry_after :: 'f
  reset_at :: 'f
  limit :: "int option"
  period :: "'f option"

definition RateLimitTooLongError_init ::
  "('f \<Rightarrow> string) \<Rightarrow> ('r \<Rightarrow> string) \<Rightarrow> HikariError
     \<Rightarrow> 'r \<Rightarrow> bool \<Rightarrow> 'f \<Rightarrow> 'f \<Rightarrow> 'f \<Rightarrow> int option \<Rightarrow> 'f option \<Rightarrow> ('r, 'f) RateLimitTooLongError" where
  "RateLimitTooLongError_init fmt_float fmt_route self route' is_global' retry_after' max_retry_after'
       reset_at' limit' period' =
     HTTPError.extend
       (HTTPError_init self
          (''The request has been rejected, as you would be waiting for more than ''
           @ ''the max retry-after ('' @ fmt_float max_retry_after' @ '') on route ''
           @ [CHR 0x27] @ fmt_route route' @ [CHR 0x27] @ '' ''
           @ ''[is_global='' @ str_bool is_global' @ '']''))
       (RateLimitTooLongError.fields route' is_global' retry_after' max_retry_after'
          reset_at' limit' period')"

definition RateLimitTooLongError ::
  "('f \<Rightarrow> string) \<Rightarrow> ('r \<Rightarrow> string)
     \<Rightarrow> 'r \<Rightarrow> bool \<Rightarrow> 'f \<Rightarrow> 'f \<Rightarrow> 'f \<Rightarrow> int option \<Rightarrow> 'f option \<Rightarrow> ('r, 'f) RateLimitTooLongError" where
  "RateLimitTooLongError fmt_float fmt_route =
     RateLimitTooLongError_init fmt_float fmt_route (new Cls_RateLimitTooLongError)"

definition remaining :: "('r, 'f) RateLimitTooLongError \<Rightarrow> int" where
  "remaining self = 0"

definition RateLimitTooLongError_str :: "('r, 'f) RateLimitTooLongError \<Rightarrow> string" where
  "RateLimitTooLongError_str self = message self"

subsection \<open>MissingIntentError\<close>

text \<open>
  The class body only annotates \<open>intents\<close>; whether an instance has the attribute is
  decided by the assignments \<open>__init__\<close> makes. The instance is therefore modelled
  with its attribute dictionary, and reading an attribute that is not in it raises
  \<open>AttributeError\<close>. \<open>'i\<close> is \<open>intents.Intents\<close>.
\<close>

record 'i MissingIntentError = HikariError +
  attrs :: "string \<rightharpoonup> 'i"

definition getattr :: "'i MissingIntentError \<Rightarrow> string \<Rightarrow> exception + 'i" where
  "getattr self name = (case attrs self name of None \<Rightarrow> Inl AttributeError | Some v \<Rightarrow> Inr v)"

definition MissingIntentError_init :: "HikariError \<Rightarrow> 'i \<Rightarrow> 'i MissingIntentError" where
  "MissingIntentError_init self intents' =
     HikariError.extend self (MissingIntentError.fields [''deleted_messages'' \<mapsto> intents'])"

definition MissingIntentError :: "'i \<Rightarrow> 'i MissingIntentError" where
  "MissingIntentError = MissingIntentError_init (new Cls_MissingIntentError)"

text \<open>\<open>sep.join(parts)\<close>.\<close>

fun join :: "string \<Rightarrow> string list \<Rightarrow> string" where
  "join sep [] = []"
| "join sep [x] = x"
| "join sep (x # y # ys) = x @ sep @ join sep (y # ys)"

text \<open>
  \<open>Intents.split\<close> and \<open>str\<close> of one intent live in \<open>hikari.intents\<close> and
  \<open>hikari.internal.enums\<close>, outside the modules verified here: the parameters \<open>split\<close>
  and \<open>str_intent\<close>.
\<close>

definition MissingIntentError_str ::
  "('i \<Rightarrow> 'i list) \<Rightarrow> ('i \<Rightarrow> string) \<Rightarrow> 'i MissingIntentError \<Rightarrow> exception + string" where
  "MissingIntentError_str split str_intent self =
     (case getattr self ''intents'' of
        Inl e \<Rightarrow> Inl e
      | Inr i \<Rightarrow> Inr (''You are missing the following intent(s): ''
                      @ join '', '' (map str_intent (split i))))"

section \<open>hikari.internal.signals\<close>

text \<open>
  \<open>handle_interrupts\<close> is a generator-based context manager. Its local variables
  \<open>interrupt\<close> and \<open>exit_callback_called\<close> are shared with the nested
  \<open>interrupt_handler\<close>; together with the process's table of signal handlers they
  form the state. The field \<open>log\<close> records, in order, the effects on the outside
  world: handlers installed and restored, the exit callback handed to the loop or run
  on it, and the exception that leaves the \<open>with\<close> statement. Logging calls change
  nothing of this and are left out.
\<close>

definition INTERRUPT_SIGNALS :: "string list" where
  "INTERRUPT_SIGNALS = [''SIGINT'', ''SIGTERM'']"

datatype handler = SIG_DFL | Interrupt_handler | Foreign_handler

text \<open>
  \<open>Callback_scheduled\<close> is \<open>asyncio.run_coroutine_threadsafe(exit_callback(), loop)\<close>;
  \<open>Callback_run_started\<close> is the call \<open>loop.run_until_complete(exit_callback())\<close> and
  \<open>Callback_run_completed\<close> its end with the coroutine finished, by returning or by
  raising.
\<close>

datatype event =
    Installed int handler
  | Callback_scheduled
  | Callback_run_started
  | Callback_run_completed
  | Propagated exception

record cm_state =
  interrupt :: "HikariInterrupt option"
  exit_callback_called :: bool
  handlers :: "int \<Rightarrow> handler"
  log :: "event list"

text \<open>
  A piece of code that runs while the handlers may be installed, as far as the context
  manager can tell: it returns, or raises, or a signal arrives while it runs. When the
  installed handler raises, the exception surfaces inside the running code, which
  either handles it and goes on (\<open>handles = True\<close>) or lets it escape. The body of the
  \<open>with\<close> statement is such a piece of code, and so is the exit callback while
  \<open>loop.run_until_complete\<close> runs it inside the \<open>except\<close> clause, where the handlers
  are still installed.
\<close>

datatype body = Return | Raise exception | Signal int bool body

text \<open>
  What the code asks of its surroundings: whether the current thread is the main
  thread, the number of a signal name in the \<open>signal\<close> module (\<open>None\<close> where
  \<open>getattr\<close> raises \<open>AttributeError\<close>), \<open>signal.strsignal\<close>, and how the coroutine
  \<open>exit_callback()\<close> behaves when it is run to its end.
\<close>

record env =
  is_main_thread :: bool
  signal_number :: "string \<Rightarrow> int option"
  strsignal :: "int \<Rightarrow> string option"
  exit_callback :: body

text \<open>
  \<open>isinstance(e, Exception)\<close>, the test of \<open>except Exception\<close>. An exception raised
  by the body or by the callback is \<open>Raised name derives\<close>, where \<open>derives\<close> says
  whether its class derives from \<open>Exception\<close> (\<open>KeyboardInterrupt\<close>, \<open>SystemExit\<close>
  and \<open>asyncio.CancelledError\<close> do not).
\<close>

fun is_Exception :: "exception \<Rightarrow> bool" where
  "is_Exception TypeError = issubclass Cls_TypeError Cls_Exception"
| "is_Exception AssertionError = issubclass Cls_AssertionError Cls_Exception"
| "is_Exception AttributeError = True"
| "is_Exception ValueError = issubclass Cls_ValueError Cls_Exception"
| "is_Exception (Interrupt i) = isinstance i Cls_Exception"
| "is_Exception (Raised name derives) = derives"

text \<open>
  The nested function \<open>interrupt_handler(signum, frame)\<close>. It returns the exception it
  raises, if any, and the state. The call \<open>errors.HikariInterrupt(signum, signame)\<close>
  passes both arguments positionally.
\<close>

definition interrupt_handler :: "env \<Rightarrow> int \<Rightarrow> cm_state \<Rightarrow> exception option \<times> cm_state" where
  "interrupt_handler env signum' st =
     (case strsignal env signum' of
        None \<Rightarrow> (Some AssertionError, st)
      | Some signame' \<Rightarrow>
          (case HikariInterrupt_init (new Cls_HikariInterrupt)
                  \<lparr>positional = [PyInt signum', PyStr signame'], kw_signum = None, kw_signame = None\<rparr> of
             Inl e \<Rightarrow> (Some e, st)
           | Inr i \<Rightarrow>
               (let st1 = st\<lparr>interrupt := Some i\<rparr>
                in if \<not> exit_callback_called st1
                   then (None, st1\<lparr>log := log st1 @ [Callback_scheduled], exit_callback_called := True\<rparr>)
                   else (None, st1))))"

text \<open>
  The two loops over \<open>_INTERRUPT_SIGNALS\<close>: \<open>signal.signal(signum, h)\<close> for every name
  the platform has, skipping the others (\<open>AttributeError\<close> is caught). Off the main
  thread \<open>signal.signal\<close> raises \<open>ValueError\<close>, which is not caught and ends the loop.
\<close>

fun set_handlers :: "env \<Rightarrow> handler \<Rightarrow> string list \<Rightarrow> cm_state \<Rightarrow> exception option \<times> cm_state" where
  "set_handlers env h [] st = (None, st)"
| "set_handlers env h (sig # sigs) st =
     (case signal_number env sig of
        None \<Rightarrow> set_handlers env h sigs st
      | Some n \<Rightarrow>
          if is_main_thread env
          then set_handlers env h sigs
                 (st\<lparr>handlers := (handlers st)(n := h), log := log st @ [Installed n h]\<rparr>)
          else (Some ValueError, st))"

text \<open>
  How a piece of running code ends: it returns, it raises an exception of its own, or
  an exception raised by the signal handler escapes from it.
\<close>

datatype ending = Returned | Raised_by_code exception | Raised_by_handler exception

fun run :: "env \<Rightarrow> body \<Rightarrow> cm_state \<Rightarrow> ending \<times> cm_state" where
  "run env Return st = (Returned, st)"
| "run env (Raise e) st = (Raised_by_code e, st)"
| "run env (Signal n handles rest) st =
     (if handlers st n = Interrupt_handler
      then (case interrupt_handler env n st of
              (None, st') \<Rightarrow> run env rest st'
            | (Some e, st') \<Rightarrow> if handles then run env rest st' else (Raised_by_handler e, st'))
      else run env rest st)"

text \<open>The exception that leaves the running code, if any.\<close>

fun raised :: "ending \<Rightarrow> exception option" where
  "raised Returned = None"
| "raised (Raised_by_code e) = Some e"
| "raised (Raised_by_handler e) = Some e"

text \<open>
  The body of the \<open>with\<close> statement at \<open>yield\<close>. A signal whose handler is not
  \<open>interrupt_handler\<close> is no business of this module and has no effect here.
\<close>

definition run_body :: "env \<Rightarrow> body \<Rightarrow> cm_state \<Rightarrow> exception option \<times> cm_state" where
  "run_body env b st = (case run env b st of (en, st') \<Rightarrow> (raised en, st'))"

text \<open>
  The code before \<open>yield\<close> on the enabled path: the two locals are initialised and
  the handlers are installed, unless \<open>signal.signal\<close> raises. \<open>enter\<close> is the state
  this code leaves behind, in which the body starts when nothing was raised.
\<close>

definition before_yield :: "env \<Rightarrow> (int \<Rightarrow> handler) \<Rightarrow> exception option \<times> cm_state" where
  "before_yield env table =
     set_handlers env Interrupt_handler INTERRUPT_SIGNALS
       \<lparr>interrupt = None, exit_callback_called = False, handlers = table, log = []\<rparr>"

definition enter :: "env \<Rightarrow> (int \<Rightarrow> handler) \<Rightarrow> cm_state" where
  "enter env table = snd (before_yield env table)"

text \<open>
  The \<open>except Exception\<close> clause. Unless the flag is set, the callback is run on the
  loop with the handlers still installed. When it returns, the flag is set and the
  exception is raised again; when it raises, or when an exception of the signal
  handler escapes from the run, that exception replaces the one in flight and the flag
  is not assigned.
\<close>

definition except_clause :: "env \<Rightarrow> exception \<Rightarrow> cm_state \<Rightarrow> exception option \<times> cm_state" where
  "except_clause env e st =
     (if \<not> exit_callback_called st
      then (case run env (exit_callback env) (st\<lparr>log := log st @ [Callback_run_started]\<rparr>) of
              (Returned, st1) \<Rightarrow>
                (Some e, st1\<lparr>log := log st1 @ [Callback_run_completed], exit_callback_called := True\<rparr>)
            | (Raised_by_code e', st1) \<Rightarrow>
                (Some e', st1\<lparr>log := log st1 @ [Callback_run_completed]\<rparr>)
            | (Raised_by_handler e', st1) \<Rightarrow> (Some e', st1))
      else (Some e, st))"

text \<open>
  The \<open>finally\<close> clause: the default handlers are put back and a recorded interrupt
  is raised, replacing any exception in flight.
\<close>

definition finally_clause :: "env \<Rightarrow> exception option \<Rightarrow> cm_state \<Rightarrow> exception option \<times> cm_state" where
  "finally_clause env in_flight st =
     (case set_handlers env SIG_DFL INTERRUPT_SIGNALS st of
        (Some e, st1) \<Rightarrow> (Some e, st1)
      | (None, st1) \<Rightarrow>
          (case interrupt st1 of
             Some i \<Rightarrow> (Some (Interrupt i), st1)
           | None \<Rightarrow> (in_flight, st1)))"

text \<open>What leaves the \<open>with\<close> statement is written to the log.\<close>

definition propagate :: "exception option \<times> cm_state \<Rightarrow> exception option \<times> cm_state" where
  "propagate r =
     (case r of
        (None, st) \<Rightarrow> (None, st)
      | (Some e, st) \<Rightarrow> (Some e, st\<lparr>log := log st @ [Propagated e]\<rparr>))"

text \<open>\<open>enabled\<close> after the first statement: \<open>None\<close> means "on the main thread".\<close>

definition resolve_enabled :: "env \<Rightarrow> bool option \<Rightarrow> bool" where
  "resolve_enabled env enabled = (case enabled of None \<Rightarrow> is_main_thread env | Some b \<Rightarrow> b)"

text \<open>
  The context manager around a body. When the code before \<open>yield\<close> raises, the body
  is not run and neither clause is reached.
\<close>

definition handle_interrupts ::
  "env \<Rightarrow> bool option \<Rightarrow> (int \<Rightarrow> handler) \<Rightarrow> body \<Rightarrow> exception option \<times> cm_state" where
  "handle_interrupts env enabled table body =
     (let enabled' = resolve_enabled env enabled
      in if \<not> enabled'
         then propagate (run_body env body
                \<lparr>interrupt = None, exit_callback_called = False, handlers = table, log = []\<rparr>)
         else (case before_yield env table of
                 (Some e, st0) \<Rightarrow> propagate (Some e, st0)
               | (None, st0) \<Rightarrow>
                   (case run_body env body st0 of
                      (None, st) \<Rightarrow> propagate (finally_clause env None st)
                    | (Some e, st) \<Rightarrow>
                        if is_Exception e
                        then (case except_clause env e st of
                                (in_flight, st') \<Rightarrow> propagate (finally_clause env in_flight st'))
                        else propagate (finally_clause env (Some e) st))))"



text \<open>
  A POSIX platform, on the main thread: \<open>SIGINT\<close> is 2 and \<open>SIGTERM\<close> is 15; the
  exit callback returns and no signal arrives while it runs.
\<close>

definition posix :: env where
  "posix =
     \<lparr>is_main_thread = True,
      signal_number = [''SIGINT'' \<mapsto> 2, ''SIGTERM'' \<mapsto> 15],
      strsignal = [2 \<mapsto> ''Interrupt'', 15 \<mapsto> ''Terminated''],
      exit_callback = Return\<rparr>"


text \<open>A signal table in which nothing has been installed yet.\<close>

definition default_table :: "int \<Rightarrow> handler" where
  "default_table n = SIG_DFL"



section \<open>The per-bucket gate of the rate limiter\<close>

text \<open>
  Modelled from the spec: the Rate Limiter's per-bucket gate (sections 3 and 4.1 of the
  specification); the rate limiter's code is not among the modules verified here. A bucket
  has a capacity (the maximum number of requests per window), a remaining budget and a
  reset-at time. A request may proceed only if remaining is positive or reset-at has
  passed, which first replenishes remaining to capacity; acquiring decrements
  remaining. A caller that may not proceed waits until the reset, unless the wait
  exceeds its configured maximum, in which case it is rejected with the wait. The
  specification does not say where reset-at moves at a replenishment: the new value is
  the parameter \<open>next_reset_at\<close>. Times are readings of a mocked clock.
\<close>

record bucket =
  bucket_hash :: string
  capacity :: nat
  bucket_remaining :: nat
  bucket_reset_at :: int
  reset_after :: int











text \<open>
  Modelled from the spec: the gate never changes a bucket's hash, capacity or
  reset-after, so these identify the bucket; a way of moving reset-at advances for a
  bucket when it always puts the new reset-at after the current clock reading.
\<close>

definition same_bucket :: "bucket \<Rightarrow> bucket \<Rightarrow> bool" where
  "same_bucket b b' =
     (bucket_hash b' = bucket_hash b \<and> capacity b' = capacity b \<and> reset_after b' = reset_after b)"





section \<open>Verified properties\<close>

subsection \<open>ShardCloseCode.is_standard\<close>

lemma is_standard_iff_range:
  "is_standard c \<longleftrightarrow> 1000 \<le> ShardCloseCode_value c \<and> ShardCloseCode_value c \<le> 1999"
  by (cases c) (simp_all add: is_standard_def)

lemma gateway_close_codes_iff: "c \<in> set gateway_close_codes \<longleftrightarrow> 4000 \<le> ShardCloseCode_value c"
  by (cases c) (simp_all add: gateway_close_codes_def)

text \<open>
  Claim C4. For every member of \<open>ShardCloseCode\<close>, \<open>is_standard\<close> is true exactly when
  the member's integer value lies in 1000..1999; the members with value 4000 or above are
  exactly \<open>UNKNOWN_ERROR\<close> through \<open>DISALLOWED_INTENT\<close>, and each of them reports
  \<open>is_standard = False\<close>.
\<close>

theorem is_standard_range:
  "(is_standard c \<longleftrightarrow> 1000 \<le> ShardCloseCode_value c \<and> ShardCloseCode_value c \<le> 1999)
   \<and> (4000 \<le> ShardCloseCode_value c \<longrightarrow> \<not> is_standard c)
   \<and> (c \<in> set gateway_close_codes \<longleftrightarrow> 4000 \<le> ShardCloseCode_value c)"
  using is_standard_iff_range [of c] gateway_close_codes_iff [of c] by auto

theorem is_standard_range_witness:
  "4000 \<le> ShardCloseCode_value DISALLOWED_INTENT \<and> \<not> is_standard DISALLOWED_INTENT
   \<and> is_standard NORMAL_CLOSURE \<and> DISALLOWED_INTENT \<in> set gateway_close_codes"
  using is_standard_range [of DISALLOWED_INTENT] is_standard_range [of NORMAL_CLOSURE] by simp

subsection \<open>Construction of the error classes\<close>

lemmas init_defs =
  HTTPResponseError_init_def HTTPError_init_def Let_def default_def new_def
  HTTPResponseError.defs HTTPError.defs HikariError.defs

lemma issubclass_client:
  "issubclass Cls_BadRequestError Cls_ClientHTTPResponseError"
  "issubclass Cls_UnauthorizedError Cls_ClientHTTPResponseError"
  "issubclass Cls_ForbiddenError Cls_ClientHTTPResponseError"
  "issubclass Cls_NotFoundError Cls_ClientHTTPResponseError"
  by code_simp+

lemma BadRequestError_attrs:
  "status (BadRequestError u h b c m e) = Status BAD_REQUEST"
  "cls (BadRequestError u h b c m e) = Cls_BadRequestError"
  "errors (BadRequestError u h b c m e) = e"
  by (simp_all add: BadRequestError_def BadRequestError_init_def BadRequestError.defs init_defs)

lemma UnauthorizedError_attrs:
  "status (UnauthorizedError u h b c m) = Status UNAUTHORIZED"
  "cls (UnauthorizedError u h b c m) = Cls_UnauthorizedError"
  by (simp_all add: UnauthorizedError_def UnauthorizedError_init_def init_defs)

lemma ForbiddenError_attrs:
  "status (ForbiddenError u h b c m) = Status FORBIDDEN"
  "cls (ForbiddenError u h b c m) = Cls_ForbiddenError"
  by (simp_all add: ForbiddenError_def ForbiddenError_init_def init_defs)

lemma NotFoundError_attrs:
  "status (NotFoundError u h b c m) = Status NOT_FOUND"
  "cls (NotFoundError u h b c m) = Cls_NotFoundError"
  by (simp_all add: NotFoundError_def NotFoundError_init_def init_defs)

lemma status_values:
  "status_int (Status BAD_REQUEST) = 400"
  "status_int (Status UNAUTHORIZED) = 401"
  "status_int (Status FORBIDDEN) = 403"
  "status_int (Status NOT_FOUND) = 404"
  by (simp_all add: status_int_def BAD_REQUEST_def UNAUTHORIZED_def FORBIDDEN_def NOT_FOUND_def)

text \<open>
  Claim C3. Whatever the arguments, a constructed \<open>BadRequestError\<close> has the status
  \<open>BAD_REQUEST\<close> (400), an \<open>UnauthorizedError\<close> has \<open>UNAUTHORIZED\<close> (401), a
  \<open>ForbiddenError\<close> has \<open>FORBIDDEN\<close> (403) and a \<open>NotFoundError\<close> has \<open>NOT_FOUND\<close>
  (404); none of the four constructors takes a status. All four are instances of
  \<open>ClientHTTPResponseError\<close>, and a \<open>BadRequestError\<close> carries the \<open>errors\<close>
  mapping it was constructed with.
\<close>

theorem client_error_statuses:
  "status (BadRequestError u1 h1 b1 c1 m1 e1) = Status BAD_REQUEST
   \<and> status_int (status (BadRequestError u1 h1 b1 c1 m1 e1)) = 400
   \<and> status (UnauthorizedError u2 h2 b2 c2 m2) = Status UNAUTHORIZED
   \<and> status_int (status (UnauthorizedError u2 h2 b2 c2 m2)) = 401
   \<and> status (ForbiddenError u3 h3 b3 c3 m3) = Status FORBIDDEN
   \<and> status_int (status (ForbiddenError u3 h3 b3 c3 m3)) = 403
   \<and> status (NotFoundError u4 h4 b4 c4 m4) = Status NOT_FOUND
   \<and> status_int (status (NotFoundError u4 h4 b4 c4 m4)) = 404
   \<and> isinstance (BadRequestError u1 h1 b1 c1 m1 e1) Cls_ClientHTTPResponseError
   \<and> isinstance (UnauthorizedError u2 h2 b2 c2 m2) Cls_ClientHTTPResponseError
   \<and> isinstance (ForbiddenError u3 h3 b3 c3 m3) Cls_ClientHTTPResponseError
   \<and> isinstance (NotFoundError u4 h4 b4 c4 m4) Cls_ClientHTTPResponseError
   \<and> errors (BadRequestError u1 h1 b1 c1 m1 e1) = e1"
  by (simp add: BadRequestError_attrs UnauthorizedError_attrs ForbiddenError_attrs
        NotFoundError_attrs status_values isinstance_def issubclass_client)

text \<open>
  Claim C5. A \<open>RateLimitTooLongError\<close> constructed from route \<open>r\<close>, is_global \<open>g\<close>,
  retry_after \<open>w\<close>, max_retry_after \<open>m\<close>, reset_at \<open>t\<close>, limit \<open>l\<close> and period \<open>p\<close>
  has exactly these values as its attributes; its \<open>str\<close> is its message, and the
  message names \<open>m\<close>, \<open>r\<close> and \<open>g\<close>.
\<close>

theorem RateLimitTooLongError_attributes:
  "(let e = RateLimitTooLongError fmt_float fmt_route r g w m t l p
    in route e = r \<and> is_global e = g \<and> retry_after e = w \<and> max_retry_after e = m
       \<and> reset_at e = t \<and> limit e = l \<and> period e = p
       \<and> RateLimitTooLongError_str e = message e
       \<and> message e =
           ''The request has been rejected, as you would be waiting for more than the max retry-after (''
           @ fmt_float m @ '') on route '' @ [CHR 0x27] @ fmt_route r @ [CHR 0x27]
           @ '' [is_global='' @ str_bool g @ '']'')"
  by (simp add: RateLimitTooLongError_def RateLimitTooLongError_init_def
        RateLimitTooLongError_str_def RateLimitTooLongError.defs init_defs)

text \<open>
  Claim C9. The property \<open>remaining\<close> of a \<open>RateLimitTooLongError\<close> is 0, whatever the
  instance.
\<close>

theorem remaining_zero: "remaining e = 0"
  by (simp add: remaining_def)

text \<open>
  Claim C6. Constructing a \<open>GatewayServerClosedConnectionError\<close> with reason \<open>s\<close>, code
  \<open>c\<close> and can_reconnect \<open>b\<close> gives an instance on which the three attributes read
  \<open>s\<close>, \<open>c\<close> and \<open>b\<close>, and whose \<open>str\<close> is "Server closed connection with code c (s)";
  an instance with can_reconnect false is propagated to the caller, one with
  can_reconnect true leads to a reconnect.
\<close>

theorem GatewayServerClosedConnectionError_attributes:
  "(let e = GatewayServerClosedConnectionError s c b
    in reason e = s \<and> GatewayServerClosedConnectionError.code e = c \<and> can_reconnect e = b
       \<and> GatewayServerClosedConnectionError_str fmt_member e =
           ''Server closed connection with code '' @ fmt_code fmt_member c @ '' ('' @ s @ '')''
       \<and> on_server_closed e = (if b then Reconnect else Propagate_to_caller))"
  by (simp add: GatewayServerClosedConnectionError_def GatewayServerClosedConnectionError_init_def
        GatewayError_init_def GatewayServerClosedConnectionError_str_def on_server_closed_def
        GatewayServerClosedConnectionError.defs GatewayError.defs init_defs)

subsection \<open>MissingIntentError\<close>

lemma MissingIntentError_str_with_attribute:
  "attrs self ''intents'' = Some i \<Longrightarrow>
     MissingIntentError_str split str_intent self =
       Inr (''You are missing the following intent(s): '' @ join '', '' (map str_intent (split i)))"
  by (simp add: MissingIntentError_str_def getattr_def)

text \<open>
  Claim C8 says that a \<open>MissingIntentError\<close> constructed with intents \<open>i\<close> has \<open>i\<close> as
  its \<open>intents\<close> attribute and that its \<open>str\<close> lists the intents \<open>i\<close> splits into.
  The code stores the argument under \<open>deleted_messages\<close>: on the instance constructed
  with the intents value 1, reading \<open>intents\<close> raises \<open>AttributeError\<close>, and so does
  \<open>str\<close>, whatever \<open>split\<close> and \<open>str\<close> of an intent do.
\<close>

theorem MissingIntentError_intents_unset:
  "getattr (MissingIntentError (1::int)) ''intents'' = Inl AttributeError
   \<and> MissingIntentError_str split str_intent (MissingIntentError (1::int)) = Inl AttributeError
   \<and> getattr (MissingIntentError (1::int)) ''deleted_messages'' = Inr 1"
  by (simp add: MissingIntentError_def MissingIntentError_init_def MissingIntentError_str_def
        getattr_def MissingIntentError.defs init_defs)

subsection \<open>HTTPResponseError.__str__\<close>

text \<open>
  Claim C10. When the message is empty, the \<open>str\<close> of an \<open>HTTPResponseError\<close> shows,
  between the quotes, the first 200 characters of the rendered response body at most,
  followed by "..." exactly when the rendered body is longer than 200 characters.
\<close>

theorem HTTPResponseError_str_chomps_body:
  assumes "message e = ''''"
  shows "HTTPResponseError_str utf8_decode py_str e =
     (case status e of
        Status st \<Rightarrow> title (replace_underscores (status_name st)) @ '' '' @ str_int (status_value st)
      | IntStatus n \<Rightarrow> ''Unknown Status '' @ str_int n)
     @ '':'' @ (if HTTPResponseError.code e \<noteq> 0
                then '' ('' @ str_int (HTTPResponseError.code e) @ '')'' else '''')
     @ '' '' @ [CHR 0x27] @ take 200 (render_body utf8_decode py_str (raw_body e))
     @ (if 200 < length (render_body utf8_decode py_str (raw_body e)) then ''...'' else '''')
     @ [CHR 0x27] @ '' for '' @ url e"
  using assms by (simp add: HTTPResponseError_str_def Let_def split: status.splits)

theorem HTTPResponseError_str_chomps_body_witness:
  "message (NotFoundError ''u'' Map.empty (Bytes []) None None :: unit HTTPResponseError) = ''''
   \<and> HTTPResponseError_str (\<lambda>bs. None) (\<lambda>rb. replicate 201 (CHR ''x''))
         (NotFoundError ''u'' Map.empty (Bytes []) None None :: unit HTTPResponseError)
       = ''Not Found 404: '' @ [CHR 0x27] @ replicate 200 (CHR ''x'') @ ''...'' @ [CHR 0x27] @ '' for u''
   \<and> HTTPResponseError_str (\<lambda>bs. Some ''body'') (\<lambda>rb. '''')
         (NotFoundError ''u'' Map.empty (Bytes []) None None :: unit HTTPResponseError)
       = ''Not Found 404: '' @ [CHR 0x27] @ ''body'' @ [CHR 0x27] @ '' for u''"
proof -
  let ?e = "NotFoundError ''u'' Map.empty (Bytes []) None None :: unit HTTPResponseError"
  have m: "message ?e = ''''"
    by (simp add: NotFoundError_def NotFoundError_init_def init_defs)
  have r: "raw_body ?e = Bytes []" "url ?e = ''u''" "HTTPResponseError.code ?e = 0"
    by (simp_all add: NotFoundError_def NotFoundError_init_def init_defs)
  have s: "status ?e = Status NOT_FOUND"
    by (rule NotFoundError_attrs)
  have n: "str_int 404 = ''404''"
    by (simp add: str_int_def str_nat.simps digit_char_def)
  have t: "title (replace_underscores ''NOT_FOUND'') = ''Not Found''"
    by (simp add: title_def replace_underscores_def is_cased_def to_upper_def to_lower_def
          ascii_lowercase_def ascii_uppercase_def)
  show ?thesis
    using HTTPResponseError_str_chomps_body [OF m, of "\<lambda>bs. None" "\<lambda>rb. replicate 201 (CHR ''x'')"]
      HTTPResponseError_str_chomps_body [OF m, of "\<lambda>bs. Some ''body''" "\<lambda>rb. ''''"]
    by (simp add: m r s n t NOT_FOUND_def render_body_def)
qed

subsection \<open>handle_interrupts\<close>

lemma HikariInterrupt_init_keywords:
  "HikariInterrupt_init self \<lparr>positional = [], kw_signum = Some n, kw_signame = Some s\<rparr> = Inr i
     \<Longrightarrow> signum i = n \<and> signame i = s \<and> cls i = cls self"
  by (auto simp: HikariInterrupt_init_def HikariInterrupt.defs HikariError.defs)

lemma HikariInterrupt_init_positional:
  "HikariInterrupt_init self \<lparr>positional = x # xs, kw_signum = a, kw_signame = b\<rparr> = Inl TypeError"
  by (simp add: HikariInterrupt_init_def)

text \<open>
  The handler always leaves by an exception, before it touches the state: the assertion
  fails when the signal has no name, and the positional call of the keyword-only
  constructor fails otherwise.
\<close>

lemma interrupt_handler_raises:
  "interrupt_handler env n st =
     (Some (case strsignal env n of None \<Rightarrow> AssertionError | Some s \<Rightarrow> TypeError), st)"
  by (simp add: interrupt_handler_def HikariInterrupt_init_positional split: option.splits)

text \<open>
  Claim C1 says that a handled signal delivered inside an enabled \<open>handle_interrupts\<close>
  makes the handler record a \<open>HikariInterrupt\<close> with the signal's number and name,
  which is raised when the body completes. On a POSIX platform, with \<open>SIGINT\<close> (2)
  delivered once, the handler raises \<open>TypeError\<close> and records nothing; the \<open>with\<close>
  statement ends with that \<open>TypeError\<close> when the body lets it escape, and with no
  exception at all when the body handles it and returns.
\<close>

theorem interrupt_handler_records_nothing:
  "fst (interrupt_handler posix 2 (enter posix default_table)) = Some TypeError
   \<and> interrupt (snd (interrupt_handler posix 2 (enter posix default_table))) = None
   \<and> fst (handle_interrupts posix (Some True) default_table (Signal 2 False Return)) = Some TypeError
   \<and> interrupt (snd (handle_interrupts posix (Some True) default_table (Signal 2 False Return))) = None
   \<and> fst (handle_interrupts posix (Some True) default_table (Signal 2 True Return)) = None"
  by code_simp



lemma set_handlers_off_main_thread:
  "\<not> is_main_thread env \<Longrightarrow> set_handlers env h sigs st = (r, st') \<Longrightarrow> st' = st"
  by (induction sigs arbitrary: st) (auto split: option.splits)















text \<open>
  A signal that arrives while the callback runs is served by the handler that is still
  installed. As the handler is written its exception escapes from the run: the
  callback is started but not completed, and the handler's \<open>TypeError\<close> leaves the
  \<open>with\<close> statement in place of the body's exception.
\<close>

lemma callback_run_cut_short:
  "log (snd (handle_interrupts (posix\<lparr>exit_callback := Signal 2 False Return\<rparr>) (Some True)
       default_table (Raise (Raised ''ValueError'' True)))) =
     [Installed 2 Interrupt_handler, Installed 15 Interrupt_handler, Callback_run_started,
      Installed 2 SIG_DFL, Installed 15 SIG_DFL, Propagated TypeError]"
  by code_simp

text \<open>
  Off the main thread \<open>signal.signal\<close> raises on entry: the body is not run and
  nothing is installed.
\<close>

lemma entry_off_main_thread:
  "fst (handle_interrupts (posix\<lparr>is_main_thread := False\<rparr>) (Some True) default_table body)
     = Some ValueError"
  "log (snd (handle_interrupts (posix\<lparr>is_main_thread := False\<rparr>) (Some True) default_table body))
     = [Propagated ValueError]"
  by (simp_all add: handle_interrupts_def resolve_enabled_def before_yield_def posix_def
        INTERRUPT_SIGNALS_def propagate_def)




subsection \<open>The per-bucket gate\<close>


lemma same_bucket_trans: "same_bucket b b1 \<Longrightarrow> same_bucket b1 b2 \<Longrightarrow> same_bucket b b2"
  by (simp add: same_bucket_def)















end
